theory Spec2Isabelle
  imports Main "HOL-Library.Word"
begin

unbundle bit_operations_syntax

section \<open>Boxer: a native message box behind one function\<close>

text \<open>
  The header \<^verbatim>\<open>boxer.hpp\<close> has two back-ends selected by the preprocessor: GTK when
  \<^verbatim>\<open>__linux__\<close> is defined and the Win32 message box when \<^verbatim>\<open>WINDOWS\<close> is defined, the
  latter with or without \<^verbatim>\<open>UNICODE\<close>. The embedding keeps the three enumerations, the
  mapping functions of both back-ends, \<^verbatim>\<open>show\<close> with its overloads and the \<^verbatim>\<open>to_string\<close>
  lookups. A build for any other platform leaves the body of \<^verbatim>\<open>show\<close> empty and is not
  modelled.
\<close>

subsection \<open>The enumerations\<close>

text \<open>
  The three enumerations are scoped enumerations with the default underlying type
  \<^verbatim>\<open>int\<close>, so a variable of the type can hold any value of the underlying type
  (\<^verbatim>\<open>static_cast<Style>(7)\<close>), and the \<^verbatim>\<open>default:\<close> branches and the failing map lookups
  of the source are reachable. Each type wraps its underlying value; the enumerators
  are numbered from zero in declaration order. No arithmetic is done on the values,
  so they are unbounded integers: what holds for every integer holds for the 32-bit
  ones.
\<close>

datatype Style = Style int

definition Style_Info :: Style where "Style_Info = Style 0"
definition Style_Warning :: Style where "Style_Warning = Style 1"
definition Style_Error :: Style where "Style_Error = Style 2"
definition Style_Question :: Style where "Style_Question = Style 3"

datatype Buttons = Buttons int

definition Buttons_OK :: Buttons where "Buttons_OK = Buttons 0"
definition Buttons_OKCancel :: Buttons where "Buttons_OKCancel = Buttons 1"
definition Buttons_YesNo :: Buttons where "Buttons_YesNo = Buttons 2"
definition Buttons_Quit :: Buttons where "Buttons_Quit = Buttons 3"

datatype Selection = Selection int

definition Selection_OK :: Selection where "Selection_OK = Selection 0"
definition Selection_Cancel :: Selection where "Selection_Cancel = Selection 1"
definition Selection_Yes :: Selection where "Selection_Yes = Selection 2"
definition Selection_No :: Selection where "Selection_No = Selection 3"
definition Selection_Quit :: Selection where "Selection_Quit = Selection 4"
definition Selection_None :: Selection where "Selection_None = Selection 5"
definition Selection_Error :: Selection where "Selection_Error = Selection 6"

text \<open>The enumerators of each type, in declaration order.\<close>

definition Style_enumerators :: "Style list" where
  "Style_enumerators = [Style_Info, Style_Warning, Style_Error, Style_Question]"

definition Buttons_enumerators :: "Buttons list" where
  "Buttons_enumerators = [Buttons_OK, Buttons_OKCancel, Buttons_YesNo, Buttons_Quit]"

definition Selection_enumerators :: "Selection list" where
  "Selection_enumerators =
     [Selection_OK, Selection_Cancel, Selection_Yes, Selection_No, Selection_Quit,
      Selection_None, Selection_Error]"

subsection \<open>The native constants\<close>

text \<open>
  The macros and enumerators of \<^verbatim>\<open>gtk/gtk.h\<close> and \<^verbatim>\<open>Windows.h\<close> that the source names
  are not declared in the repository. The mapping functions take them as a parameter:
  one record per header, one field per constant the source uses. \<^verbatim>\<open>gint\<close> and \<^verbatim>\<open>int\<close>
  values are integers (they are only compared), \<^verbatim>\<open>UINT\<close> flags are 32-bit words
  (they are combined with \<^verbatim>\<open>|=\<close>).
\<close>

type_synonym gint = int
type_synonym UINT = "32 word"

record gtk_h =
  GTK_MESSAGE_INFO :: int
  GTK_MESSAGE_WARNING :: int
  GTK_MESSAGE_ERROR :: int
  GTK_MESSAGE_QUESTION :: int
  GTK_BUTTONS_OK :: int
  GTK_BUTTONS_OK_CANCEL :: int
  GTK_BUTTONS_YES_NO :: int
  GTK_BUTTONS_CLOSE :: int
  GTK_RESPONSE_OK :: gint
  GTK_RESPONSE_CANCEL :: gint
  GTK_RESPONSE_YES :: gint
  GTK_RESPONSE_NO :: gint
  GTK_RESPONSE_CLOSE :: gint

record windows_h =
  MB_ICONINFORMATION :: UINT
  MB_ICONWARNING :: UINT
  MB_ICONERROR :: UINT
  MB_ICONQUESTION :: UINT
  MB_OK :: UINT
  MB_OKCANCEL :: UINT
  MB_YESNO :: UINT
  MB_TASKMODAL :: UINT
  IDOK :: int
  IDCANCEL :: int
  IDYES :: int
  IDNO :: int

text \<open>
  The values the two platform headers give these names (GTK 3 and the Windows SDK).
  They instantiate the parameter wherever a theorem is applied to a concrete input.
\<close>

definition gtk3_h :: gtk_h where
  "gtk3_h =
     \<lparr>GTK_MESSAGE_INFO = 0, GTK_MESSAGE_WARNING = 1, GTK_MESSAGE_ERROR = 3,
      GTK_MESSAGE_QUESTION = 2,
      GTK_BUTTONS_OK = 1, GTK_BUTTONS_OK_CANCEL = 5, GTK_BUTTONS_YES_NO = 4,
      GTK_BUTTONS_CLOSE = 2,
      GTK_RESPONSE_OK = - 5, GTK_RESPONSE_CANCEL = - 6, GTK_RESPONSE_YES = - 8,
      GTK_RESPONSE_NO = - 9, GTK_RESPONSE_CLOSE = - 7\<rparr>"

definition winuser_h :: windows_h where
  "winuser_h =
     \<lparr>MB_ICONINFORMATION = 0x40, MB_ICONWARNING = 0x30, MB_ICONERROR = 0x10,
      MB_ICONQUESTION = 0x20,
      MB_OK = 0x0, MB_OKCANCEL = 0x1, MB_YESNO = 0x4, MB_TASKMODAL = 0x2000,
      IDOK = 1, IDCANCEL = 2, IDYES = 6, IDNO = 7\<rparr>"

text \<open>
  A \<^verbatim>\<open>switch\<close> whose case labels are not pairwise different does not compile, so the
  response codes named by each \<^verbatim>\<open>getSelection\<close> are pairwise different in every build.
\<close>

definition gtk_labels :: "gtk_h \<Rightarrow> gint list" where
  "gtk_labels c =
     [GTK_RESPONSE_OK c, GTK_RESPONSE_CANCEL c, GTK_RESPONSE_YES c, GTK_RESPONSE_NO c,
      GTK_RESPONSE_CLOSE c]"

definition windows_labels :: "windows_h \<Rightarrow> int list" where
  "windows_labels c = [IDOK c, IDCANCEL c, IDYES c, IDNO c]"

subsection \<open>The mapping functions of the GTK back-end\<close>

definition getMessageType :: "gtk_h \<Rightarrow> Style \<Rightarrow> int" where
  "getMessageType c style =
     (if style = Style_Info then GTK_MESSAGE_INFO c
      else if style = Style_Warning then GTK_MESSAGE_WARNING c
      else if style = Style_Error then GTK_MESSAGE_ERROR c
      else if style = Style_Question then GTK_MESSAGE_QUESTION c
      else GTK_MESSAGE_INFO c)"

definition getButtonsType :: "gtk_h \<Rightarrow> Buttons \<Rightarrow> int" where
  "getButtonsType c buttons =
     (if buttons = Buttons_OK then GTK_BUTTONS_OK c
      else if buttons = Buttons_OKCancel then GTK_BUTTONS_OK_CANCEL c
      else if buttons = Buttons_YesNo then GTK_BUTTONS_YES_NO c
      else if buttons = Buttons_Quit then GTK_BUTTONS_CLOSE c
      else GTK_BUTTONS_OK c)"

definition getSelection_gtk :: "gtk_h \<Rightarrow> gint \<Rightarrow> Selection" where
  "getSelection_gtk c response =
     (if response = GTK_RESPONSE_OK c then Selection_OK
      else if response = GTK_RESPONSE_CANCEL c then Selection_Cancel
      else if response = GTK_RESPONSE_YES c then Selection_Yes
      else if response = GTK_RESPONSE_NO c then Selection_No
      else if response = GTK_RESPONSE_CLOSE c then Selection_Quit
      else Selection_None)"

subsection \<open>The mapping functions of the Windows back-end\<close>

definition getIcon :: "windows_h \<Rightarrow> Style \<Rightarrow> UINT" where
  "getIcon c style =
     (if style = Style_Info then MB_ICONINFORMATION c
      else if style = Style_Warning then MB_ICONWARNING c
      else if style = Style_Error then MB_ICONERROR c
      else if style = Style_Question then MB_ICONQUESTION c
      else MB_ICONINFORMATION c)"

definition getButtons :: "windows_h \<Rightarrow> Buttons \<Rightarrow> UINT" where
  "getButtons c buttons =
     (if buttons = Buttons_OK \<or> buttons = Buttons_Quit then MB_OK c
      else if buttons = Buttons_OKCancel then MB_OKCANCEL c
      else if buttons = Buttons_YesNo then MB_YESNO c
      else MB_OK c)"

definition getSelection_windows :: "windows_h \<Rightarrow> int \<Rightarrow> Buttons \<Rightarrow> Selection" where
  "getSelection_windows c response buttons =
     (if response = IDOK c then
        (if buttons = Buttons_Quit then Selection_Quit else Selection_OK)
      else if response = IDCANCEL c then Selection_Cancel
      else if response = IDYES c then Selection_Yes
      else if response = IDNO c then Selection_No
      else Selection_None)"

subsection \<open>The native call boundary\<close>

text \<open>
  \<^verbatim>\<open>show\<close> does nothing but call the native toolkit. What the toolkit answers is a
  parameter of the model, and the calls \<^verbatim>\<open>show\<close> makes are returned as a list, in the
  order in which they are made, next to the result. The two widgets that the GTK
  branch creates are named by the variables that hold them. The \<^verbatim>\<open>const char*\<close>
  arguments are the character lists they point to, and a native call that blocks is
  taken to return.

  An exception that leaves a function is a value of its result type (\<open>Inl\<close>). The
  header has no \<^verbatim>\<open>throw\<close>, no \<^verbatim>\<open>try\<close> and no \<^verbatim>\<open>noexcept\<close>; what can throw is the standard
  library it calls: \<^verbatim>\<open>std::map::at\<close> and the constructor of \<^verbatim>\<open>std::wstring\<close>.
\<close>

datatype exception = Out_of_range | Bad_alloc | Length_error

type_synonym wstring = "16 word list"

datatype widget = Parent | Dialog

datatype native_call =
    Call_gtk_init_check
  | Call_gtk_window_new
  | Call_gtk_message_dialog_new int int string
  | Call_gtk_window_set_title string
  | Call_gtk_window_set_gravity widget
  | Call_gtk_window_set_position widget
  | Call_gtk_dialog_run
  | Call_gtk_widget_destroy widget
  | Call_g_main_context_iteration
  | Call_MultiByteToWideChar string int
  | Call_MessageBoxW wstring wstring UINT
  | Call_MessageBoxA string string UINT

text \<open>
  The answers of GTK: whether \<^verbatim>\<open>gtk_init_check\<close> succeeds, the response with which
  \<^verbatim>\<open>gtk_dialog_run\<close> returns for the dialog built from a message type, a buttons
  type, a message and a title, and whether the \<open>k\<close>-th call of
  \<^verbatim>\<open>g_main_context_iteration\<close> after the dialog is destroyed dispatched an event.
\<close>

record gtk_env =
  gtk_init_check :: bool
  gtk_dialog_run :: "int \<Rightarrow> int \<Rightarrow> string \<Rightarrow> string \<Rightarrow> gint"
  g_main_context_iteration :: "nat \<Rightarrow> bool"

text \<open>
  The answers of Windows. \<^verbatim>\<open>MultiByteToWideChar\<close> is always called with the code page
  \<^verbatim>\<open>CP_UTF8\<close>, no flags and the source length \<open>-1\<close>; from the source string and the
  size of the destination buffer (\<open>0\<close> with a null buffer asks for the size needed)
  it gives its return value and the contents of the buffer afterwards. The macro
  \<^verbatim>\<open>MessageBox\<close> is \<^verbatim>\<open>MessageBoxW\<close> when \<^verbatim>\<open>UNICODE\<close> is defined and \<^verbatim>\<open>MessageBoxA\<close>
  otherwise; the owner window is always null. \<open>wstring_alloc n\<close> is what
  \<^verbatim>\<open>std::wstring(n, L'\0')\<close> does in the process: nothing when the string is
  constructed, the exception when the constructor throws (\<^verbatim>\<open>std::bad_alloc\<close> when the
  memory cannot be had, \<^verbatim>\<open>std::length_error\<close> when \<open>n\<close> exceeds \<^verbatim>\<open>max_size()\<close>).
\<close>

record windows_env =
  MultiByteToWideChar :: "string \<Rightarrow> int \<Rightarrow> int \<times> wstring"
  wstring_alloc :: "nat \<Rightarrow> exception option"
  MessageBoxW :: "wstring \<Rightarrow> wstring \<Rightarrow> UINT \<Rightarrow> int"
  MessageBoxA :: "string \<Rightarrow> string \<Rightarrow> UINT \<Rightarrow> int"

text \<open>The three builds the header supports, each with its constants and its toolkit.\<close>

datatype platform =
    Linux gtk_h gtk_env
  | Windows_UNICODE windows_h windows_env
  | Windows_ANSI windows_h windows_env

subsection \<open>show\<close>

text \<open>
  What a call of \<^verbatim>\<open>show\<close> that comes back gives: the selection it returns or the
  exception that leaves it, and the native calls made.
\<close>

type_synonym outcome = "(exception + Selection) \<times> native_call list"

text \<open>
  The last statement of the GTK branch before \<^verbatim>\<open>return\<close> is
  \<^verbatim>\<open>while (g_main_context_iteration(nullptr, false));\<close>. It runs for as long as the
  calls dispatch events, which may be forever, so the loop is a partial function:
  from the index of the next call it gives the number of calls made when the loop
  ends, and nothing when it does not end.
\<close>

partial_function (option) drain_events :: "(nat \<Rightarrow> bool) \<Rightarrow> nat \<Rightarrow> nat option" where
  "drain_events iteration k =
     (if iteration k then drain_events iteration (Suc k) else Some (Suc k))"

definition show_linux ::
  "gtk_h \<Rightarrow> gtk_env \<Rightarrow> string \<Rightarrow> string \<Rightarrow> Style \<Rightarrow> Buttons \<Rightarrow> outcome option" where
  "show_linux c env message title style buttons =
     (if \<not> gtk_init_check env then Some (Inr Selection_Error, [Call_gtk_init_check])
      else
        let message_type = getMessageType c style;
            buttons_type = getButtonsType c buttons;
            selection =
              getSelection_gtk c (gtk_dialog_run env message_type buttons_type message title)
        in map_option
             (\<lambda>n. (Inr selection,
                   [Call_gtk_init_check,
                    Call_gtk_window_new,
                    Call_gtk_message_dialog_new message_type buttons_type message,
                    Call_gtk_window_set_title title,
                    Call_gtk_window_set_gravity Parent,
                    Call_gtk_window_set_gravity Dialog,
                    Call_gtk_window_set_position Parent,
                    Call_gtk_window_set_position Dialog,
                    Call_gtk_dialog_run,
                    Call_gtk_widget_destroy Dialog,
                    Call_gtk_widget_destroy Parent]
                   @ replicate n Call_g_main_context_iteration))
             (drain_events (g_main_context_iteration env) 0))"

text \<open>
  \<^verbatim>\<open>utf8ToUtf16\<close> returns a flag and writes the converted text through its reference
  parameter; the model takes the old value of that parameter and returns the flag,
  the new value and the calls made. Between the two calls of \<^verbatim>\<open>MultiByteToWideChar\<close>
  the function constructs the buffer, a \<^verbatim>\<open>std::wstring\<close> of \<^verbatim>\<open>count\<close> null characters.
  When that constructor throws, nothing catches the exception: it leaves
  \<^verbatim>\<open>utf8ToUtf16\<close> in place of the flag, the reference parameter is not assigned and
  the second call is not made.
\<close>

definition utf8ToUtf16 ::
  "windows_env \<Rightarrow> string \<Rightarrow> wstring \<Rightarrow> (exception + bool) \<times> wstring \<times> native_call list"
  where
  "utf8ToUtf16 env utf8String utf16String =
     (let count = fst (MultiByteToWideChar env utf8String 0)
      in if count \<le> 0
         then (Inr False, utf16String, [Call_MultiByteToWideChar utf8String 0])
         else
           (case wstring_alloc env (nat count) of
              Some e \<Rightarrow> (Inl e, utf16String, [Call_MultiByteToWideChar utf8String 0])
            | None \<Rightarrow>
                let (written, buffer) = MultiByteToWideChar env utf8String count
                in (Inr (0 < written), buffer,
                    [Call_MultiByteToWideChar utf8String 0,
                     Call_MultiByteToWideChar utf8String count])))"

text \<open>\<^verbatim>\<open>c_str()\<close> read as a C string: the characters before the first null character.\<close>

definition c_str :: "wstring \<Rightarrow> wstring" where
  "c_str s = takeWhile (\<lambda>ch. ch \<noteq> 0) s"

definition flags_of :: "windows_h \<Rightarrow> Style \<Rightarrow> Buttons \<Rightarrow> UINT" where
  "flags_of c style buttons = (MB_TASKMODAL c OR getIcon c style) OR getButtons c buttons"

text \<open>
  The Windows branch. With \<^verbatim>\<open>UNICODE\<close> the two conversions come first, the title only
  when the message was converted (\<^verbatim>\<open>||\<close> evaluates its right operand only when the
  left one is false); an exception from either leaves \<^verbatim>\<open>show\<close>.
\<close>

definition show_windows ::
  "bool \<Rightarrow> windows_h \<Rightarrow> windows_env \<Rightarrow> string \<Rightarrow> string \<Rightarrow> Style \<Rightarrow> Buttons \<Rightarrow> outcome"
  where
  "show_windows unicode c env message title style buttons =
     (let flags = flags_of c style buttons
      in if unicode then
           (case utf8ToUtf16 env message [] of
              (Inl e, wideMessage, calls_message) \<Rightarrow> (Inl e, calls_message)
            | (Inr ok_message, wideMessage, calls_message) \<Rightarrow>
                if \<not> ok_message then (Inr Selection_Error, calls_message)
                else
                  (case utf8ToUtf16 env title [] of
                     (Inl e, wideTitle, calls_title) \<Rightarrow> (Inl e, calls_message @ calls_title)
                   | (Inr ok_title, wideTitle, calls_title) \<Rightarrow>
                       if \<not> ok_title
                       then (Inr Selection_Error, calls_message @ calls_title)
                       else
                         let messageArg = c_str wideMessage;
                             titleArg = c_str wideTitle
                         in (Inr (getSelection_windows c
                                    (MessageBoxW env messageArg titleArg flags) buttons),
                             calls_message @ calls_title
                               @ [Call_MessageBoxW messageArg titleArg flags])))
         else
           (Inr (getSelection_windows c (MessageBoxA env message title flags) buttons),
            [Call_MessageBoxA message title flags]))"

text \<open>
  \<^verbatim>\<open>show\<close> with four arguments, on the platform the header is compiled for. The result
  is the outcome of the call, or nothing when the call does not come back.
\<close>

definition kDefaultStyle :: Style where
  "kDefaultStyle = Style_Info"

definition kDefaultButtons :: Buttons where
  "kDefaultButtons = Buttons_OK"

definition "show" ::
  "platform \<Rightarrow> string \<Rightarrow> string \<Rightarrow> Style \<Rightarrow> Buttons \<Rightarrow> outcome option" where
  "show p message title style buttons =
     (case p of
        Linux c env \<Rightarrow> show_linux c env message title style buttons
      | Windows_UNICODE c env \<Rightarrow> Some (show_windows True c env message title style buttons)
      | Windows_ANSI c env \<Rightarrow> Some (show_windows False c env message title style buttons))"

text \<open>The three convenience overloads, told apart in the source by their argument types.\<close>

definition show_style ::
  "platform \<Rightarrow> string \<Rightarrow> string \<Rightarrow> Style \<Rightarrow> outcome option" where
  "show_style p message title style = show p message title style kDefaultButtons"

definition show_buttons ::
  "platform \<Rightarrow> string \<Rightarrow> string \<Rightarrow> Buttons \<Rightarrow> outcome option" where
  "show_buttons p message title buttons = show p message title kDefaultStyle buttons"

definition show_default ::
  "platform \<Rightarrow> string \<Rightarrow> string \<Rightarrow> outcome option" where
  "show_default p message title = show p message title kDefaultStyle kDefaultButtons"

text \<open>The native calls that create or show a window.\<close>

fun is_dialog_call :: "native_call \<Rightarrow> bool" where
  "is_dialog_call Call_gtk_init_check = False"
| "is_dialog_call (Call_MultiByteToWideChar s n) = False"
| "is_dialog_call Call_g_main_context_iteration = False"
| "is_dialog_call other = True"

text \<open>
  What Windows answers for one text, read off the toolkit and not off \<^verbatim>\<open>utf8ToUtf16\<close>:
  the buffer size \<^verbatim>\<open>MultiByteToWideChar\<close> asks for; the conversion fails when either
  of the two calls reports no character, and succeeds when both report some; and
  the exception, if any, that the construction of a buffer of the size asked for
  throws, no buffer being constructed when the size is not positive.
\<close>

definition size_needed :: "windows_env \<Rightarrow> string \<Rightarrow> int" where
  "size_needed env text = fst (MultiByteToWideChar env text 0)"

definition conversion_fails :: "windows_env \<Rightarrow> string \<Rightarrow> bool" where
  "conversion_fails env text =
     (size_needed env text \<le> 0
      \<or> fst (MultiByteToWideChar env text (size_needed env text)) \<le> 0)"

definition conversion_succeeds :: "windows_env \<Rightarrow> string \<Rightarrow> bool" where
  "conversion_succeeds env text =
     (0 < size_needed env text
      \<and> 0 < fst (MultiByteToWideChar env text (size_needed env text)))"

definition buffer_exception :: "windows_env \<Rightarrow> string \<Rightarrow> exception option" where
  "buffer_exception env text =
     (if size_needed env text \<le> 0 then None
      else wstring_alloc env (nat (size_needed env text)))"

subsection \<open>to_string\<close>

text \<open>
  The three tables are \<^verbatim>\<open>std::map\<close>s built from initialiser lists, and \<^verbatim>\<open>to_string\<close> reads
  them with \<^verbatim>\<open>at\<close>, which throws \<^verbatim>\<open>std::out_of_range\<close> for a key that is not in the
  map. The exception is a value of the result type.
\<close>

definition styleToString :: "(Style \<times> string) list" where
  "styleToString =
     [(Style_Info, ''Info''), (Style_Warning, ''Warning''), (Style_Error, ''Error''),
      (Style_Question, ''Question'')]"

definition buttonsToString :: "(Buttons \<times> string) list" where
  "buttonsToString =
     [(Buttons_OK, ''OK''), (Buttons_OKCancel, ''OKCancel''), (Buttons_YesNo, ''YesNo''),
      (Buttons_Quit, ''Quit'')]"

definition selectionToString :: "(Selection \<times> string) list" where
  "selectionToString =
     [(Selection_OK, ''OK''), (Selection_Cancel, ''Cancel''), (Selection_Yes, ''Yes''),
      (Selection_No, ''No''), (Selection_Quit, ''Quit''), (Selection_None, ''None''),
      (Selection_Error, ''Error'')]"

definition at :: "('k \<times> 'v) list \<Rightarrow> 'k \<Rightarrow> exception + 'v" where
  "at m key = (case map_of m key of None \<Rightarrow> Inl Out_of_range | Some v \<Rightarrow> Inr v)"

definition to_string_Style :: "Style \<Rightarrow> exception + string" where
  "to_string_Style style = at styleToString style"

definition to_string_Buttons :: "Buttons \<Rightarrow> exception + string" where
  "to_string_Buttons buttons = at buttonsToString buttons"

definition to_string_Selection :: "Selection \<Rightarrow> exception + string" where
  "to_string_Selection selection = at selectionToString selection"

subsection \<open>Concrete toolkits\<close>

text \<open>
  The toolkits on which the functions are evaluated. For GTK: one without a display,
  so that \<^verbatim>\<open>gtk_init_check\<close> fails; one whose user answers the dialog with a given
  response and whose main context dispatches two events after the dialog is
  destroyed; and one whose main context dispatches an event at every iteration, as
  with an idle source that never removes itself. For Windows: one whose
  \<^verbatim>\<open>MultiByteToWideChar\<close> always fails; one that converts ASCII text (one wide character
  per byte and the terminating null) and whose user answers with a given response;
  one that does the same but cannot convert one given text; and one that converts
  ASCII text but has no memory left for a buffer.
\<close>

definition gtk_no_display :: gtk_env where
  "gtk_no_display =
     \<lparr>gtk_init_check = False, gtk_dialog_run = (\<lambda>mt bt m t. 0),
      g_main_context_iteration = (\<lambda>k. False)\<rparr>"

definition gtk_user_responds :: "gint \<Rightarrow> gtk_env" where
  "gtk_user_responds r =
     \<lparr>gtk_init_check = True, gtk_dialog_run = (\<lambda>mt bt m t. r),
      g_main_context_iteration = (\<lambda>k. k < 2)\<rparr>"

definition gtk_always_busy :: "gint \<Rightarrow> gtk_env" where
  "gtk_always_busy r =
     \<lparr>gtk_init_check = True, gtk_dialog_run = (\<lambda>mt bt m t. r),
      g_main_context_iteration = (\<lambda>k. True)\<rparr>"

definition ascii_to_utf16 :: "string \<Rightarrow> int \<times> wstring" where
  "ascii_to_utf16 text = (int (length text) + 1, map (\<lambda>ch. of_nat (of_char ch)) text @ [0])"

definition windows_no_conversion :: "int \<Rightarrow> windows_env" where
  "windows_no_conversion r =
     \<lparr>MultiByteToWideChar = (\<lambda>text n. (0, [])), wstring_alloc = (\<lambda>n. None),
      MessageBoxW = (\<lambda>m t f. r), MessageBoxA = (\<lambda>m t f. r)\<rparr>"

definition windows_user_responds :: "int \<Rightarrow> windows_env" where
  "windows_user_responds r =
     \<lparr>MultiByteToWideChar = (\<lambda>text n. ascii_to_utf16 text), wstring_alloc = (\<lambda>n. None),
      MessageBoxW = (\<lambda>m t f. r), MessageBoxA = (\<lambda>m t f. r)\<rparr>"

definition windows_cannot_convert :: "string \<Rightarrow> int \<Rightarrow> windows_env" where
  "windows_cannot_convert bad r =
     \<lparr>MultiByteToWideChar = (\<lambda>text n. if text = bad then (0, []) else ascii_to_utf16 text),
      wstring_alloc = (\<lambda>n. None),
      MessageBoxW = (\<lambda>m t f. r), MessageBoxA = (\<lambda>m t f. r)\<rparr>"

definition windows_out_of_memory :: "int \<Rightarrow> windows_env" where
  "windows_out_of_memory r =
     \<lparr>MultiByteToWideChar = (\<lambda>text n. ascii_to_utf16 text),
      wstring_alloc = (\<lambda>n. Some Bad_alloc),
      MessageBoxW = (\<lambda>m t f. r), MessageBoxA = (\<lambda>m t f. r)\<rparr>"

section \<open>Properties\<close>

subsection \<open>Auxiliary facts\<close>

lemmas Style_defs = Style_Info_def Style_Warning_def Style_Error_def Style_Question_def
lemmas Buttons_defs = Buttons_OK_def Buttons_OKCancel_def Buttons_YesNo_def Buttons_Quit_def
lemmas Selection_defs = Selection_OK_def Selection_Cancel_def Selection_Yes_def Selection_No_def
  Selection_Quit_def Selection_None_def Selection_Error_def

lemma drain_events_stops: "\<not> it (k + d) \<Longrightarrow> \<exists>n. drain_events it k = Some n"
proof (induction d arbitrary: k)
  case 0
  then show ?case by (subst drain_events.simps) simp
next
  case (Suc d)
  show ?case
  proof (cases "it k")
    case True
    from Suc.prems have "\<not> it (Suc k + d)" by simp
    then obtain n where "drain_events it (Suc k) = Some n" using Suc.IH by blast
    with True show ?thesis by (subst drain_events.simps) simp
  next
    case False
    then show ?thesis by (subst drain_events.simps) simp
  qed
qed

lemma drain_events_Some: "drain_events it k = Some n \<Longrightarrow> k < n \<and> \<not> it (n - 1)"
proof (rule drain_events.raw_induct [where P = "\<lambda>it k n. k < n \<and> \<not> it (n - 1)"])
  fix f :: "(nat \<Rightarrow> bool) \<Rightarrow> nat \<Rightarrow> nat option" and it' k' n'
  assume IH: "\<And>it k n. f it k = Some n \<Longrightarrow> k < n \<and> \<not> it (n - 1)"
    and step: "(if it' k' then f it' (Suc k') else Some (Suc k')) = Some n'"
  show "k' < n' \<and> \<not> it' (n' - 1)"
  proof (cases "it' k'")
    case True
    with step have "f it' (Suc k') = Some n'" by simp
    from IH [OF this] show ?thesis by simp
  next
    case False
    with step show ?thesis by auto
  qed
qed

lemma drain_events_forever: "\<forall>n. it n \<Longrightarrow> drain_events it k = None"
  using drain_events_Some [of it k] by (cases "drain_events it k") auto

lemma getSelection_gtk_range:
  "getSelection_gtk c r \<in>
     {Selection_OK, Selection_Cancel, Selection_Yes, Selection_No, Selection_Quit, Selection_None}"
  by (simp add: getSelection_gtk_def)

lemma getSelection_windows_range:
  "getSelection_windows c r b \<in>
     {Selection_OK, Selection_Cancel, Selection_Yes, Selection_No, Selection_Quit, Selection_None}"
  by (simp add: getSelection_windows_def)

lemma getSelection_gtk_not_Error: "getSelection_gtk c r \<noteq> Selection_Error"
  by (simp add: getSelection_gtk_def Selection_defs)

lemma getSelection_windows_not_Error: "getSelection_windows c r b \<noteq> Selection_Error"
  by (simp add: getSelection_windows_def Selection_defs)

lemma show_linux_init_failure:
  "\<not> gtk_init_check env \<Longrightarrow>
     show_linux c env m t s b = Some (Inr Selection_Error, [Call_gtk_init_check])"
  by (simp add: show_linux_def)

lemma show_linux_Error:
  "show_linux c env m t s b = Some (Inr Selection_Error, calls) \<Longrightarrow>
     \<not> gtk_init_check env \<and> calls = [Call_gtk_init_check]"
  by (auto simp: show_linux_def Let_def getSelection_gtk_not_Error split: if_splits)

lemma show_linux_selection:
  "show_linux c env m t s b = Some (Inr sel, calls) \<Longrightarrow> sel \<in> set Selection_enumerators"
  using getSelection_gtk_range [of c]
  by (auto simp: show_linux_def Let_def Selection_enumerators_def split: if_splits)

lemma show_linux_no_throw: "show_linux c env m t s b \<noteq> Some (Inl e, calls)"
  by (auto simp: show_linux_def Let_def)

lemma show_linux_returns:
  "\<not> g_main_context_iteration env n \<Longrightarrow> show_linux c env m t s b \<noteq> None"
  using drain_events_stops [of "g_main_context_iteration env" 0 n]
  by (auto simp: show_linux_def Let_def)

lemma show_linux_blocks:
  "gtk_init_check env \<Longrightarrow> \<forall>n. g_main_context_iteration env n \<Longrightarrow>
     show_linux c env m t s b = None"
  by (simp add: show_linux_def Let_def drain_events_forever)

lemma show_linux_None:
  "show_linux c env m t s b = None
     \<longleftrightarrow> gtk_init_check env \<and> (\<forall>n. g_main_context_iteration env n)"
proof
  assume none: "show_linux c env m t s b = None"
  then have init: "gtk_init_check env"
    by (auto simp: show_linux_def split: if_splits)
  have "g_main_context_iteration env n" for n
    using none show_linux_returns [of env n c m t s b] by blast
  with init show "gtk_init_check env \<and> (\<forall>n. g_main_context_iteration env n)" by blast
next
  assume "gtk_init_check env \<and> (\<forall>n. g_main_context_iteration env n)"
  then show "show_linux c env m t s b = None" by (simp add: show_linux_blocks)
qed

lemma show_linux_displayed:
  "show_linux c env m t s b = Some (Inr sel, calls) \<Longrightarrow> sel \<noteq> Selection_Error \<Longrightarrow>
     Call_gtk_dialog_run \<in> set calls"
  by (auto simp: show_linux_def Let_def split: if_splits)

lemma utf8ToUtf16_result:
  "fst (utf8ToUtf16 env text w) =
     (if size_needed env text \<le> 0 then Inr False
      else
        (case wstring_alloc env (nat (size_needed env text)) of
           Some e \<Rightarrow> Inl e
         | None \<Rightarrow> Inr (0 < fst (MultiByteToWideChar env text (size_needed env text)))))"
  by (simp add: utf8ToUtf16_def size_needed_def Let_def split: option.splits prod.splits)

lemma utf8ToUtf16_fails:
  "conversion_fails env text \<Longrightarrow> buffer_exception env text = None \<Longrightarrow>
     fst (utf8ToUtf16 env text w) = Inr False"
  by (auto simp: utf8ToUtf16_result conversion_fails_def buffer_exception_def
      split: if_splits)

lemma utf8ToUtf16_succeeds:
  "conversion_succeeds env text \<Longrightarrow> buffer_exception env text = None \<Longrightarrow>
     fst (utf8ToUtf16 env text w) = Inr True"
  by (auto simp: utf8ToUtf16_result conversion_succeeds_def buffer_exception_def
      split: if_splits)

lemma utf8ToUtf16_throws:
  "fst (utf8ToUtf16 env text w) = Inl e \<longleftrightarrow> buffer_exception env text = Some e"
  by (auto simp: utf8ToUtf16_result buffer_exception_def split: option.splits)

lemma utf8ToUtf16_Inr_True:
  "fst (utf8ToUtf16 env text w) = Inr True
     \<longleftrightarrow> conversion_succeeds env text \<and> buffer_exception env text = None"
  by (auto simp: utf8ToUtf16_result conversion_succeeds_def buffer_exception_def
      split: option.splits)

lemma utf8ToUtf16_calls:
  "utf8ToUtf16 env s w = (ok, w', calls) \<Longrightarrow> list_all (\<lambda>c. \<not> is_dialog_call c) calls"
  by (auto simp: utf8ToUtf16_def Let_def split: if_splits prod.splits option.splits)

lemma show_windows_message:
  "fst (utf8ToUtf16 env m []) = Inr False \<Longrightarrow>
     fst (show_windows True c env m t s b) = Inr Selection_Error"
  "fst (utf8ToUtf16 env m []) = Inl e \<Longrightarrow> fst (show_windows True c env m t s b) = Inl e"
  by (auto simp: show_windows_def Let_def split: prod.splits sum.splits)

lemma show_windows_title:
  "fst (utf8ToUtf16 env m []) = Inr True \<Longrightarrow> fst (utf8ToUtf16 env t []) = Inr False \<Longrightarrow>
     fst (show_windows True c env m t s b) = Inr Selection_Error"
  "fst (utf8ToUtf16 env m []) = Inr True \<Longrightarrow> fst (utf8ToUtf16 env t []) = Inl e \<Longrightarrow>
     fst (show_windows True c env m t s b) = Inl e"
  by (auto simp: show_windows_def Let_def split: prod.splits sum.splits)

lemma show_windows_unicode_Error:
  "show_windows True c env m t s b = (Inr Selection_Error, calls) \<Longrightarrow>
     (fst (utf8ToUtf16 env m []) = Inr False \<or> fst (utf8ToUtf16 env t []) = Inr False)
     \<and> list_all (\<lambda>c. \<not> is_dialog_call c) calls"
  by (auto simp: show_windows_def Let_def getSelection_windows_not_Error
      split: prod.splits sum.splits if_splits dest: utf8ToUtf16_calls)

lemma show_windows_unicode_throw:
  "fst (show_windows True c env m t s b) = Inl e \<Longrightarrow>
     fst (utf8ToUtf16 env m []) = Inl e
     \<or> fst (utf8ToUtf16 env m []) = Inr True \<and> fst (utf8ToUtf16 env t []) = Inl e"
  by (auto simp: show_windows_def Let_def split: prod.splits sum.splits if_splits)

lemma show_windows_ansi:
  "show_windows False c env m t s b =
     (Inr (getSelection_windows c (MessageBoxA env m t (flags_of c s b)) b),
      [Call_MessageBoxA m t (flags_of c s b)])"
  by (simp add: show_windows_def Let_def)

lemma show_windows_selection:
  "show_windows u c env m t s b = (Inr sel, calls) \<Longrightarrow> sel \<in> set Selection_enumerators"
  using getSelection_windows_range [of c]
  by (auto simp: show_windows_def Let_def Selection_enumerators_def
      split: prod.splits sum.splits if_splits)

lemma show_windows_displayed:
  "show_windows u c env m t s b = (Inr sel, calls) \<Longrightarrow> sel \<noteq> Selection_Error \<Longrightarrow>
     \<exists>x \<in> set calls. is_dialog_call x"
  by (auto simp: show_windows_def Let_def split: if_splits prod.splits sum.splits)

subsection \<open>The functions on the concrete toolkits\<close>

lemma show_linux_example:
  "show_linux gtk3_h (gtk_user_responds (- 5)) ''Saved'' ''Note'' Style_Info Buttons_OK =
     Some (Inr Selection_OK,
       [Call_gtk_init_check, Call_gtk_window_new,
        Call_gtk_message_dialog_new 0 1 ''Saved'', Call_gtk_window_set_title ''Note'',
        Call_gtk_window_set_gravity Parent, Call_gtk_window_set_gravity Dialog,
        Call_gtk_window_set_position Parent, Call_gtk_window_set_position Dialog,
        Call_gtk_dialog_run, Call_gtk_widget_destroy Dialog, Call_gtk_widget_destroy Parent,
        Call_g_main_context_iteration, Call_g_main_context_iteration,
        Call_g_main_context_iteration])"
  by (simp add: show_linux_def gtk_user_responds_def gtk3_h_def getMessageType_def
      getButtonsType_def getSelection_gtk_def drain_events.simps Style_defs Buttons_defs
      numeral_3_eq_3)

lemma show_linux_no_display:
  "show (Linux gtk3_h gtk_no_display) ''Saved'' ''Note'' Style_Info Buttons_OK
     = Some (Inr Selection_Error, [Call_gtk_init_check])"
  by (simp add: show_def show_linux_def gtk_no_display_def)

lemma utf8ToUtf16_no_conversion:
  "utf8ToUtf16 (windows_no_conversion r) s w
     = (Inr False, w, [Call_MultiByteToWideChar s 0])"
  by (simp add: utf8ToUtf16_def windows_no_conversion_def)

lemma show_windows_no_conversion:
  "show (Windows_UNICODE winuser_h (windows_no_conversion 1)) ''Saved'' ''Note''
       Style_Info Buttons_OK
     = Some (Inr Selection_Error, [Call_MultiByteToWideChar ''Saved'' 0])"
  by (simp add: show_def show_windows_def utf8ToUtf16_no_conversion)

lemma show_windows_unicode_example:
  "show_windows True winuser_h (windows_user_responds 1) ''Hi'' ''T'' Style_Error Buttons_Quit =
     (Inr Selection_Quit,
      [Call_MultiByteToWideChar ''Hi'' 0, Call_MultiByteToWideChar ''Hi'' 3,
       Call_MultiByteToWideChar ''T'' 0, Call_MultiByteToWideChar ''T'' 2,
       Call_MessageBoxW [0x48, 0x69] [0x54] 0x2010])"
  by (simp add: show_windows_def utf8ToUtf16_def windows_user_responds_def ascii_to_utf16_def
      winuser_h_def flags_of_def getIcon_def getButtons_def getSelection_windows_def c_str_def
      Style_defs Buttons_defs)

lemma show_windows_title_example:
  "show (Windows_UNICODE winuser_h (windows_cannot_convert ''Note'' 1)) ''Saved'' ''Note''
       Style_Info Buttons_OK
     = Some (Inr Selection_Error,
         [Call_MultiByteToWideChar ''Saved'' 0, Call_MultiByteToWideChar ''Saved'' 6,
          Call_MultiByteToWideChar ''Note'' 0])"
  by (simp add: show_def show_windows_def utf8ToUtf16_def windows_cannot_convert_def
      ascii_to_utf16_def)

lemma show_windows_out_of_memory:
  "show (Windows_UNICODE winuser_h (windows_out_of_memory 1)) ''Saved'' ''Note''
       Style_Info Buttons_OK
     = Some (Inl Bad_alloc, [Call_MultiByteToWideChar ''Saved'' 0])"
  by (simp add: show_def show_windows_def utf8ToUtf16_def windows_out_of_memory_def
      ascii_to_utf16_def)

lemma show_linux_always_busy:
  "show (Linux gtk3_h (gtk_always_busy r)) m t s b = None"
  by (simp add: show_def show_linux_blocks gtk_always_busy_def)

lemma conversion_examples:
  "conversion_fails (windows_no_conversion r) text"
  "buffer_exception (windows_no_conversion r) text = None"
  "conversion_succeeds (windows_cannot_convert ''Note'' r) ''Saved''"
  "conversion_fails (windows_cannot_convert ''Note'' r) ''Note''"
  "buffer_exception (windows_cannot_convert ''Note'' r) text = None"
  "conversion_succeeds (windows_out_of_memory r) ''Saved''"
  "conversion_succeeds (windows_out_of_memory r) ''Note''"
  "buffer_exception (windows_out_of_memory r) ''Saved'' = Some Bad_alloc"
  by (simp_all add: conversion_fails_def conversion_succeeds_def buffer_exception_def
      size_needed_def windows_no_conversion_def windows_cannot_convert_def
      windows_out_of_memory_def ascii_to_utf16_def)

subsection \<open>The behaviour of the interface\<close>

text \<open>
  C1. \<^verbatim>\<open>show\<close> returns \<^verbatim>\<open>Selection::Error\<close> when \<^verbatim>\<open>gtk_init_check\<close> fails, and in the
  \<^verbatim>\<open>UNICODE\<close> build for Windows when the conversion of the message fails, or that of
  the title after the message was converted, as long as the construction of the
  buffers does not throw. Whatever \<^verbatim>\<open>show\<close> returns is one of the seven enumerators of
  \<^verbatim>\<open>Selection\<close>. An exception leaves \<^verbatim>\<open>show\<close> in one case only: in the \<^verbatim>\<open>UNICODE\<close> build,
  when the construction of the buffer for the message throws, or that of the buffer
  for the title after the message was converted; the exception is then the one the
  constructor threw. On Linux and in the build without \<^verbatim>\<open>UNICODE\<close> no exception leaves
  it. On Windows \<^verbatim>\<open>show\<close> always comes back; on Linux it does not come back exactly
  when \<^verbatim>\<open>gtk_init_check\<close> succeeded and every call of \<^verbatim>\<open>g_main_context_iteration\<close>
  dispatches an event.
\<close>
theorem show_outcomes:
  "(\<not> gtk_init_check genv \<longrightarrow>
      map_option fst (show (Linux gc genv) m t s b) = Some (Inr Selection_Error))
   \<and> (conversion_fails wenv m \<and> buffer_exception wenv m = None \<longrightarrow>
      map_option fst (show (Windows_UNICODE wc wenv) m t s b) = Some (Inr Selection_Error))
   \<and> (conversion_succeeds wenv m \<and> buffer_exception wenv m = None
       \<and> conversion_fails wenv t \<and> buffer_exception wenv t = None \<longrightarrow>
      map_option fst (show (Windows_UNICODE wc wenv) m t s b) = Some (Inr Selection_Error))
   \<and> (\<forall>sel calls. show p m t s b = Some (Inr sel, calls) \<longrightarrow>
        sel \<in> set Selection_enumerators)
   \<and> (\<forall>e. map_option fst (show (Linux gc genv) m t s b) \<noteq> Some (Inl e))
   \<and> (\<forall>e. map_option fst (show (Windows_ANSI wc wenv) m t s b) \<noteq> Some (Inl e))
   \<and> (\<forall>e. map_option fst (show (Windows_UNICODE wc wenv) m t s b) = Some (Inl e)
        \<longleftrightarrow> buffer_exception wenv m = Some e
             \<or> conversion_succeeds wenv m \<and> buffer_exception wenv m = None
               \<and> buffer_exception wenv t = Some e)
   \<and> show (Windows_UNICODE wc wenv) m t s b \<noteq> None
   \<and> show (Windows_ANSI wc wenv) m t s b \<noteq> None
   \<and> (show (Linux gc genv) m t s b = None
        \<longleftrightarrow> gtk_init_check genv \<and> (\<forall>n. g_main_context_iteration genv n))"
proof -
  let ?unicode = "map_option fst (show (Windows_UNICODE wc wenv) m t s b)"
  have unicode: "?unicode = Some (fst (show_windows True wc wenv m t s b))"
    by (simp add: show_def)
  have init: "\<not> gtk_init_check genv \<longrightarrow>
      map_option fst (show (Linux gc genv) m t s b) = Some (Inr Selection_Error)"
    by (simp add: show_def show_linux_init_failure)
  have message: "conversion_fails wenv m \<and> buffer_exception wenv m = None \<longrightarrow>
      ?unicode = Some (Inr Selection_Error)"
    unfolding unicode
    using show_windows_message(1) [of wenv m wc t s b] utf8ToUtf16_fails [of wenv m "[]"]
    by simp
  have title: "conversion_succeeds wenv m \<and> buffer_exception wenv m = None
       \<and> conversion_fails wenv t \<and> buffer_exception wenv t = None \<longrightarrow>
      ?unicode = Some (Inr Selection_Error)"
    unfolding unicode
    using show_windows_title(1) [of wenv m t wc s b] utf8ToUtf16_fails [of wenv t "[]"]
      utf8ToUtf16_succeeds [of wenv m "[]"]
    by simp
  have member: "\<forall>sel calls. show p m t s b = Some (Inr sel, calls) \<longrightarrow>
      sel \<in> set Selection_enumerators"
  proof (intro allI impI)
    fix sel calls
    assume r: "show p m t s b = Some (Inr sel, calls)"
    show "sel \<in> set Selection_enumerators"
    proof (cases p)
      case (Linux c env)
      with r show ?thesis by (simp add: show_def show_linux_selection)
    next
      case (Windows_UNICODE c env)
      with r show ?thesis by (simp add: show_def show_windows_selection)
    next
      case (Windows_ANSI c env)
      with r show ?thesis by (simp add: show_def show_windows_selection)
    qed
  qed
  have linux_quiet: "\<forall>e. map_option fst (show (Linux gc genv) m t s b) \<noteq> Some (Inl e)"
    using show_linux_no_throw [of gc genv m t s b] by (auto simp: show_def)
  have ansi_quiet: "\<forall>e. map_option fst (show (Windows_ANSI wc wenv) m t s b) \<noteq> Some (Inl e)"
    by (simp add: show_def show_windows_ansi)
  have throws: "\<forall>e. ?unicode = Some (Inl e)
        \<longleftrightarrow> buffer_exception wenv m = Some e
             \<or> conversion_succeeds wenv m \<and> buffer_exception wenv m = None
               \<and> buffer_exception wenv t = Some e"
  proof (intro allI iffI)
    fix e
    assume "?unicode = Some (Inl e)"
    then have "fst (show_windows True wc wenv m t s b) = Inl e" by (simp add: unicode)
    from show_windows_unicode_throw [OF this]
    show "buffer_exception wenv m = Some e
             \<or> conversion_succeeds wenv m \<and> buffer_exception wenv m = None
               \<and> buffer_exception wenv t = Some e"
      by (simp add: utf8ToUtf16_throws utf8ToUtf16_Inr_True)
  next
    fix e
    assume "buffer_exception wenv m = Some e
             \<or> conversion_succeeds wenv m \<and> buffer_exception wenv m = None
               \<and> buffer_exception wenv t = Some e"
    then have "fst (utf8ToUtf16 wenv m []) = Inl e
       \<or> fst (utf8ToUtf16 wenv m []) = Inr True \<and> fst (utf8ToUtf16 wenv t []) = Inl e"
      by (simp add: utf8ToUtf16_throws utf8ToUtf16_Inr_True)
    then have "fst (show_windows True wc wenv m t s b) = Inl e"
      using show_windows_message(2) [of wenv m e wc t s b]
        show_windows_title(2) [of wenv m t e wc s b]
      by blast
    then show "?unicode = Some (Inl e)" by (simp add: unicode)
  qed
  have windows: "show (Windows_UNICODE wc wenv) m t s b \<noteq> None"
    "show (Windows_ANSI wc wenv) m t s b \<noteq> None"
    by (simp_all add: show_def)
  have linux: "show (Linux gc genv) m t s b = None
        \<longleftrightarrow> gtk_init_check genv \<and> (\<forall>n. g_main_context_iteration genv n)"
    by (simp add: show_def show_linux_None)
  from init message title member linux_quiet ansi_quiet throws windows linux
  show ?thesis by blast
qed

theorem show_outcomes_witness:
  "\<not> gtk_init_check gtk_no_display
   \<and> map_option fst (show (Linux gtk3_h gtk_no_display) ''Saved'' ''Note'' Style_Info Buttons_OK)
       = Some (Inr Selection_Error)
   \<and> conversion_fails (windows_no_conversion 1) ''Saved''
   \<and> buffer_exception (windows_no_conversion 1) ''Saved'' = None
   \<and> map_option fst
         (show (Windows_UNICODE winuser_h (windows_no_conversion 1)) ''Saved'' ''Note''
            Style_Info Buttons_OK)
       = Some (Inr Selection_Error)
   \<and> conversion_succeeds (windows_cannot_convert ''Note'' 1) ''Saved''
   \<and> conversion_fails (windows_cannot_convert ''Note'' 1) ''Note''
   \<and> map_option fst
         (show (Windows_UNICODE winuser_h (windows_cannot_convert ''Note'' 1)) ''Saved''
            ''Note'' Style_Info Buttons_OK)
       = Some (Inr Selection_Error)
   \<and> show (Linux gtk3_h (gtk_user_responds (- 5))) ''Saved'' ''Note'' Style_Info Buttons_OK
       \<noteq> None
   \<and> \<not> g_main_context_iteration (gtk_user_responds (- 5)) 2
   \<and> Selection_OK \<in> set Selection_enumerators
   \<and> buffer_exception (windows_out_of_memory 1) ''Saved'' = Some Bad_alloc
   \<and> map_option fst
         (show (Windows_UNICODE winuser_h (windows_out_of_memory 1)) ''Saved'' ''Note''
            Style_Info Buttons_OK)
       = Some (Inl Bad_alloc)"
proof -
  let ?p = "Linux gtk3_h (gtk_user_responds (- 5))"
  have init: "\<not> gtk_init_check gtk_no_display" by (simp add: gtk_no_display_def)
  have drained: "\<not> g_main_context_iteration (gtk_user_responds (- 5)) 2"
    by (simp add: gtk_user_responds_def)
  have returns: "show ?p ''Saved'' ''Note'' Style_Info Buttons_OK \<noteq> None"
    using show_outcomes
      [where genv = "gtk_user_responds (- 5)" and gc = gtk3_h
         and m = "''Saved''" and t = "''Note''" and s = Style_Info and b = Buttons_OK] drained
    by blast
  have member: "Selection_OK \<in> set Selection_enumerators"
    using show_outcomes
      [where p = ?p and m = "''Saved''" and t = "''Note''" and s = Style_Info
         and b = Buttons_OK]
    by (simp add: show_def show_linux_example)
  have no_display:
    "map_option fst (show (Linux gtk3_h gtk_no_display) ''Saved'' ''Note'' Style_Info Buttons_OK)
       = Some (Inr Selection_Error)"
    using show_outcomes
      [where genv = gtk_no_display and gc = gtk3_h and m = "''Saved''" and t = "''Note''"
         and s = Style_Info and b = Buttons_OK] init
    by blast
  have no_conversion:
    "map_option fst
         (show (Windows_UNICODE winuser_h (windows_no_conversion 1)) ''Saved'' ''Note''
            Style_Info Buttons_OK)
       = Some (Inr Selection_Error)"
    using show_outcomes
      [where wenv = "windows_no_conversion 1" and wc = winuser_h and m = "''Saved''"
         and t = "''Note''" and s = Style_Info and b = Buttons_OK]
      conversion_examples(1,2) [of 1 "''Saved''"]
    by blast
  have no_title:
    "map_option fst
         (show (Windows_UNICODE winuser_h (windows_cannot_convert ''Note'' 1)) ''Saved''
            ''Note'' Style_Info Buttons_OK)
       = Some (Inr Selection_Error)"
    using show_outcomes
      [where wenv = "windows_cannot_convert ''Note'' 1" and wc = winuser_h
         and m = "''Saved''" and t = "''Note''" and s = Style_Info and b = Buttons_OK]
      conversion_examples(3,4) [of 1] conversion_examples(5) [of 1 "''Saved''"]
      conversion_examples(5) [of 1 "''Note''"]
    by blast
  have no_memory:
    "map_option fst
         (show (Windows_UNICODE winuser_h (windows_out_of_memory 1)) ''Saved'' ''Note''
            Style_Info Buttons_OK)
       = Some (Inl Bad_alloc)"
    using show_outcomes
      [where wenv = "windows_out_of_memory 1" and wc = winuser_h
         and m = "''Saved''" and t = "''Note''" and s = Style_Info and b = Buttons_OK]
      conversion_examples(8) [of 1]
    by blast
  from init drained returns member no_display no_conversion no_title no_memory
    conversion_examples(1,2) [of 1 "''Saved''"] conversion_examples(3,4,8) [of 1]
  show ?thesis by blast
qed

text \<open>
  The statement that in every case other than a failed initialisation and a failed
  conversion \<^verbatim>\<open>show\<close> returns a selection and throws nothing fails twice. In the
  \<^verbatim>\<open>UNICODE\<close> build, with both texts convertible and no memory for the buffer,
  \<^verbatim>\<open>std::bad_alloc\<close> leaves \<^verbatim>\<open>show\<close> after the first call of \<^verbatim>\<open>MultiByteToWideChar\<close>. On
  Linux, with GTK initialised and a main context that dispatches an event at every
  iteration, \<^verbatim>\<open>show\<close> never comes back.
\<close>
theorem show_throws_or_blocks:
  "conversion_succeeds (windows_out_of_memory 1) ''Saved''
   \<and> conversion_succeeds (windows_out_of_memory 1) ''Note''
   \<and> show (Windows_UNICODE winuser_h (windows_out_of_memory 1)) ''Saved'' ''Note''
         Style_Info Buttons_OK
       = Some (Inl Bad_alloc, [Call_MultiByteToWideChar ''Saved'' 0])
   \<and> gtk_init_check (gtk_always_busy (- 5))
   \<and> show (Linux gtk3_h (gtk_always_busy (- 5))) ''Saved'' ''Note'' Style_Info Buttons_OK
       = None"
proof -
  have "gtk_init_check (gtk_always_busy (- 5))" by (simp add: gtk_always_busy_def)
  then show ?thesis
    by (simp add: conversion_examples show_windows_out_of_memory show_linux_always_busy)
qed

text \<open>
  C2. On Windows \<^verbatim>\<open>getButtons\<close> maps \<^verbatim>\<open>Buttons::Quit\<close> to \<^verbatim>\<open>MB_OK\<close>, the constant it gives
  for \<^verbatim>\<open>Buttons::OK\<close>, and \<^verbatim>\<open>getSelection\<close> translates the response \<^verbatim>\<open>IDOK\<close> to
  \<^verbatim>\<open>Selection::Quit\<close>, which is not \<^verbatim>\<open>Selection::OK\<close>, when the request was
  \<^verbatim>\<open>Buttons::Quit\<close>.
\<close>
theorem quit_button_on_windows:
  "getButtons wc Buttons_Quit = MB_OK wc
   \<and> getButtons wc Buttons_Quit = getButtons wc Buttons_OK
   \<and> getSelection_windows wc (IDOK wc) Buttons_Quit = Selection_Quit
   \<and> getSelection_windows wc (IDOK wc) Buttons_Quit \<noteq> Selection_OK"
  by (simp add: getButtons_def getSelection_windows_def Selection_defs)

text \<open>
  C3. The three convenience overloads are the four-argument \<^verbatim>\<open>show\<close> with
  \<^verbatim>\<open>Style::Info\<close> and \<^verbatim>\<open>Buttons::OK\<close> filled in for the arguments left out: the same
  selection and the same native calls, or no return in the same cases.
\<close>
theorem show_overloads:
  "show_default p m t = show p m t Style_Info Buttons_OK
   \<and> show_style p m t s = show p m t s Buttons_OK
   \<and> show_buttons p m t b = show p m t Style_Info b"
  by (simp add: show_default_def show_style_def show_buttons_def kDefaultStyle_def
      kDefaultButtons_def)

text \<open>
  C4. On both platforms \<^verbatim>\<open>getSelection\<close> is defined for every response code. The
  codes it recognises (pairwise different, as the labels of a \<^verbatim>\<open>switch\<close> are) map to
  the selection of their case, \<^verbatim>\<open>IDOK\<close> to \<^verbatim>\<open>Quit\<close> or \<^verbatim>\<open>OK\<close> according to the buttons
  requested, and every other code maps to \<^verbatim>\<open>Selection::None\<close>.
\<close>
theorem getSelection_total:
  "(distinct (gtk_labels gc) \<longrightarrow>
      getSelection_gtk gc (GTK_RESPONSE_OK gc) = Selection_OK
      \<and> getSelection_gtk gc (GTK_RESPONSE_CANCEL gc) = Selection_Cancel
      \<and> getSelection_gtk gc (GTK_RESPONSE_YES gc) = Selection_Yes
      \<and> getSelection_gtk gc (GTK_RESPONSE_NO gc) = Selection_No
      \<and> getSelection_gtk gc (GTK_RESPONSE_CLOSE gc) = Selection_Quit)
   \<and> (r \<notin> set (gtk_labels gc) \<longrightarrow> getSelection_gtk gc r = Selection_None)
   \<and> (distinct (windows_labels wc) \<longrightarrow>
      getSelection_windows wc (IDOK wc) b
        = (if b = Buttons_Quit then Selection_Quit else Selection_OK)
      \<and> getSelection_windows wc (IDCANCEL wc) b = Selection_Cancel
      \<and> getSelection_windows wc (IDYES wc) b = Selection_Yes
      \<and> getSelection_windows wc (IDNO wc) b = Selection_No)
   \<and> (r' \<notin> set (windows_labels wc) \<longrightarrow> getSelection_windows wc r' b = Selection_None)"
proof -
  have gtk: "distinct (gtk_labels gc) \<longrightarrow>
      getSelection_gtk gc (GTK_RESPONSE_OK gc) = Selection_OK
      \<and> getSelection_gtk gc (GTK_RESPONSE_CANCEL gc) = Selection_Cancel
      \<and> getSelection_gtk gc (GTK_RESPONSE_YES gc) = Selection_Yes
      \<and> getSelection_gtk gc (GTK_RESPONSE_NO gc) = Selection_No
      \<and> getSelection_gtk gc (GTK_RESPONSE_CLOSE gc) = Selection_Quit"
    by (auto simp: gtk_labels_def getSelection_gtk_def)
  have gtk_other: "r \<notin> set (gtk_labels gc) \<longrightarrow> getSelection_gtk gc r = Selection_None"
    by (simp add: gtk_labels_def getSelection_gtk_def)
  have win: "distinct (windows_labels wc) \<longrightarrow>
      getSelection_windows wc (IDOK wc) b
        = (if b = Buttons_Quit then Selection_Quit else Selection_OK)
      \<and> getSelection_windows wc (IDCANCEL wc) b = Selection_Cancel
      \<and> getSelection_windows wc (IDYES wc) b = Selection_Yes
      \<and> getSelection_windows wc (IDNO wc) b = Selection_No"
    by (auto simp: windows_labels_def getSelection_windows_def)
  have win_other:
    "r' \<notin> set (windows_labels wc) \<longrightarrow> getSelection_windows wc r' b = Selection_None"
    by (simp add: windows_labels_def getSelection_windows_def)
  from gtk gtk_other win win_other show ?thesis by blast
qed

theorem getSelection_total_witness:
  "distinct (gtk_labels gtk3_h) \<and> distinct (windows_labels winuser_h)
   \<and> - 1 \<notin> set (gtk_labels gtk3_h) \<and> 0 \<notin> set (windows_labels winuser_h)
   \<and> getSelection_gtk gtk3_h (- 5) = Selection_OK
   \<and> getSelection_gtk gtk3_h (- 6) = Selection_Cancel
   \<and> getSelection_gtk gtk3_h (- 8) = Selection_Yes
   \<and> getSelection_gtk gtk3_h (- 9) = Selection_No
   \<and> getSelection_gtk gtk3_h (- 7) = Selection_Quit
   \<and> getSelection_gtk gtk3_h (- 1) = Selection_None
   \<and> getSelection_windows winuser_h 1 Buttons_Quit = Selection_Quit
   \<and> getSelection_windows winuser_h 2 Buttons_Quit = Selection_Cancel
   \<and> getSelection_windows winuser_h 6 Buttons_Quit = Selection_Yes
   \<and> getSelection_windows winuser_h 7 Buttons_Quit = Selection_No
   \<and> getSelection_windows winuser_h 0 Buttons_Quit = Selection_None"
proof -
  have labels: "distinct (gtk_labels gtk3_h)" "distinct (windows_labels winuser_h)"
    "- 1 \<notin> set (gtk_labels gtk3_h)" "0 \<notin> set (windows_labels winuser_h)"
    by (simp_all add: gtk_labels_def gtk3_h_def windows_labels_def winuser_h_def)
  have vals: "GTK_RESPONSE_OK gtk3_h = - 5" "GTK_RESPONSE_CANCEL gtk3_h = - 6"
    "GTK_RESPONSE_YES gtk3_h = - 8" "GTK_RESPONSE_NO gtk3_h = - 9"
    "GTK_RESPONSE_CLOSE gtk3_h = - 7" "IDOK winuser_h = 1" "IDCANCEL winuser_h = 2"
    "IDYES winuser_h = 6" "IDNO winuser_h = 7"
    by (simp_all add: gtk3_h_def winuser_h_def)
  from labels
    getSelection_total [where gc = gtk3_h and wc = winuser_h and r = "- 1" and r' = 0
      and b = Buttons_Quit]
  show ?thesis unfolding vals by simp
qed

text \<open>
  C5. \<^verbatim>\<open>getMessageType\<close> and \<^verbatim>\<open>getIcon\<close> map each of the four styles to the native
  constant of the same meaning; the four results are pairwise different when the
  header gives the four constants different values; and a \<^verbatim>\<open>Style\<close> value that is no
  enumerator is mapped like \<^verbatim>\<open>Style::Info\<close>.
\<close>
theorem style_icon_mapping:
  "getMessageType gc Style_Info = GTK_MESSAGE_INFO gc
   \<and> getMessageType gc Style_Warning = GTK_MESSAGE_WARNING gc
   \<and> getMessageType gc Style_Error = GTK_MESSAGE_ERROR gc
   \<and> getMessageType gc Style_Question = GTK_MESSAGE_QUESTION gc
   \<and> getIcon wc Style_Info = MB_ICONINFORMATION wc
   \<and> getIcon wc Style_Warning = MB_ICONWARNING wc
   \<and> getIcon wc Style_Error = MB_ICONERROR wc
   \<and> getIcon wc Style_Question = MB_ICONQUESTION wc
   \<and> (distinct [GTK_MESSAGE_INFO gc, GTK_MESSAGE_WARNING gc, GTK_MESSAGE_ERROR gc,
                 GTK_MESSAGE_QUESTION gc] \<longrightarrow>
        distinct (map (getMessageType gc) Style_enumerators))
   \<and> (distinct [MB_ICONINFORMATION wc, MB_ICONWARNING wc, MB_ICONERROR wc,
                 MB_ICONQUESTION wc] \<longrightarrow>
        distinct (map (getIcon wc) Style_enumerators))
   \<and> (s \<notin> set Style_enumerators \<longrightarrow>
        getMessageType gc s = getMessageType gc Style_Info
        \<and> getIcon wc s = getIcon wc Style_Info)"
proof -
  have gtk: "getMessageType gc Style_Info = GTK_MESSAGE_INFO gc"
    "getMessageType gc Style_Warning = GTK_MESSAGE_WARNING gc"
    "getMessageType gc Style_Error = GTK_MESSAGE_ERROR gc"
    "getMessageType gc Style_Question = GTK_MESSAGE_QUESTION gc"
    by (simp_all add: getMessageType_def Style_defs)
  have win: "getIcon wc Style_Info = MB_ICONINFORMATION wc"
    "getIcon wc Style_Warning = MB_ICONWARNING wc"
    "getIcon wc Style_Error = MB_ICONERROR wc"
    "getIcon wc Style_Question = MB_ICONQUESTION wc"
    by (simp_all add: getIcon_def Style_defs)
  have other: "s \<notin> set Style_enumerators \<longrightarrow>
        getMessageType gc s = getMessageType gc Style_Info
        \<and> getIcon wc s = getIcon wc Style_Info"
    by (simp add: Style_enumerators_def getMessageType_def getIcon_def)
  from gtk win other show ?thesis by (simp add: Style_enumerators_def)
qed

theorem style_icon_mapping_witness:
  "distinct (map (getMessageType gtk3_h) Style_enumerators)
   \<and> distinct (map (getIcon winuser_h) Style_enumerators)
   \<and> Style 7 \<notin> set Style_enumerators
   \<and> getMessageType gtk3_h (Style 7) = 0
   \<and> getIcon winuser_h (Style 7) = 0x40"
proof -
  have d: "distinct [GTK_MESSAGE_INFO gtk3_h, GTK_MESSAGE_WARNING gtk3_h,
      GTK_MESSAGE_ERROR gtk3_h, GTK_MESSAGE_QUESTION gtk3_h]"
    "distinct [MB_ICONINFORMATION winuser_h, MB_ICONWARNING winuser_h,
      MB_ICONERROR winuser_h, MB_ICONQUESTION winuser_h]"
    by (simp_all add: gtk3_h_def winuser_h_def)
  have out: "Style 7 \<notin> set Style_enumerators"
    by (simp add: Style_enumerators_def Style_defs)
  have vals: "GTK_MESSAGE_INFO gtk3_h = 0" "MB_ICONINFORMATION winuser_h = 0x40"
    by (simp_all add: gtk3_h_def winuser_h_def)
  from d out style_icon_mapping [where gc = gtk3_h and wc = winuser_h and s = "Style 7"]
  show ?thesis unfolding vals by simp
qed

text \<open>
  C6. \<^verbatim>\<open>to_string\<close> gives each enumerator of \<^verbatim>\<open>Style\<close>, \<^verbatim>\<open>Buttons\<close> and \<^verbatim>\<open>Selection\<close> its
  name, and for a value that is no enumerator the lookup ends with
  \<^verbatim>\<open>std::out_of_range\<close> and gives no string.
\<close>
theorem to_string_names:
  "to_string_Style Style_Info = Inr ''Info''
   \<and> to_string_Style Style_Warning = Inr ''Warning''
   \<and> to_string_Style Style_Error = Inr ''Error''
   \<and> to_string_Style Style_Question = Inr ''Question''
   \<and> to_string_Buttons Buttons_OK = Inr ''OK''
   \<and> to_string_Buttons Buttons_OKCancel = Inr ''OKCancel''
   \<and> to_string_Buttons Buttons_YesNo = Inr ''YesNo''
   \<and> to_string_Buttons Buttons_Quit = Inr ''Quit''
   \<and> to_string_Selection Selection_OK = Inr ''OK''
   \<and> to_string_Selection Selection_Cancel = Inr ''Cancel''
   \<and> to_string_Selection Selection_Yes = Inr ''Yes''
   \<and> to_string_Selection Selection_No = Inr ''No''
   \<and> to_string_Selection Selection_Quit = Inr ''Quit''
   \<and> to_string_Selection Selection_None = Inr ''None''
   \<and> to_string_Selection Selection_Error = Inr ''Error''
   \<and> (s \<notin> set Style_enumerators \<longrightarrow> to_string_Style s = Inl Out_of_range)
   \<and> (b \<notin> set Buttons_enumerators \<longrightarrow> to_string_Buttons b = Inl Out_of_range)
   \<and> (sel \<notin> set Selection_enumerators \<longrightarrow> to_string_Selection sel = Inl Out_of_range)"
proof -
  have style: "to_string_Style Style_Info = Inr ''Info''"
    "to_string_Style Style_Warning = Inr ''Warning''"
    "to_string_Style Style_Error = Inr ''Error''"
    "to_string_Style Style_Question = Inr ''Question''"
    by (simp_all add: to_string_Style_def at_def styleToString_def Style_defs)
  have buttons: "to_string_Buttons Buttons_OK = Inr ''OK''"
    "to_string_Buttons Buttons_OKCancel = Inr ''OKCancel''"
    "to_string_Buttons Buttons_YesNo = Inr ''YesNo''"
    "to_string_Buttons Buttons_Quit = Inr ''Quit''"
    by (simp_all add: to_string_Buttons_def at_def buttonsToString_def Buttons_defs)
  have selection: "to_string_Selection Selection_OK = Inr ''OK''"
    "to_string_Selection Selection_Cancel = Inr ''Cancel''"
    "to_string_Selection Selection_Yes = Inr ''Yes''"
    "to_string_Selection Selection_No = Inr ''No''"
    "to_string_Selection Selection_Quit = Inr ''Quit''"
    "to_string_Selection Selection_None = Inr ''None''"
    "to_string_Selection Selection_Error = Inr ''Error''"
    by (simp_all add: to_string_Selection_def at_def selectionToString_def Selection_defs)
  have invalid: "s \<notin> set Style_enumerators \<longrightarrow> to_string_Style s = Inl Out_of_range"
    "b \<notin> set Buttons_enumerators \<longrightarrow> to_string_Buttons b = Inl Out_of_range"
    "sel \<notin> set Selection_enumerators \<longrightarrow> to_string_Selection sel = Inl Out_of_range"
    by (simp_all add: to_string_Style_def to_string_Buttons_def to_string_Selection_def
        at_def styleToString_def buttonsToString_def selectionToString_def
        Style_enumerators_def Buttons_enumerators_def Selection_enumerators_def)
  from style buttons selection invalid show ?thesis by blast
qed

theorem to_string_names_witness:
  "Style 4 \<notin> set Style_enumerators \<and> to_string_Style (Style 4) = Inl Out_of_range
   \<and> Buttons (- 1) \<notin> set Buttons_enumerators
   \<and> to_string_Buttons (Buttons (- 1)) = Inl Out_of_range
   \<and> Selection 7 \<notin> set Selection_enumerators
   \<and> to_string_Selection (Selection 7) = Inl Out_of_range"
proof -
  have out: "Style 4 \<notin> set Style_enumerators" "Buttons (- 1) \<notin> set Buttons_enumerators"
    "Selection 7 \<notin> set Selection_enumerators"
    by (simp_all add: Style_enumerators_def Buttons_enumerators_def
        Selection_enumerators_def Style_defs Buttons_defs Selection_defs)
  from out
    to_string_names [where s = "Style 4" and b = "Buttons (- 1)" and sel = "Selection 7"]
  show ?thesis by blast
qed


text \<open>
  C7. When \<^verbatim>\<open>show\<close> returns \<^verbatim>\<open>Selection::Error\<close>, no window was created and no dialog was
  shown: the only native calls made are \<^verbatim>\<open>gtk_init_check\<close> (on Linux, where it is the
  single call) or \<^verbatim>\<open>MultiByteToWideChar\<close>. When it returns any other selection, a
  dialog was shown.
\<close>
theorem show_error_before_dialog:
  "(show p m t s b = Some (Inr Selection_Error, calls) \<longrightarrow>
      list_all (\<lambda>x. \<not> is_dialog_call x) calls)
   \<and> (show (Linux gc genv) m t s b = Some (Inr Selection_Error, calls) \<longrightarrow>
      calls = [Call_gtk_init_check])
   \<and> (show p m t s b = Some (Inr sel, calls) \<and> sel \<noteq> Selection_Error \<longrightarrow>
      list_ex is_dialog_call calls)"
proof -
  have quiet: "show p m t s b = Some (Inr Selection_Error, calls) \<longrightarrow>
      list_all (\<lambda>x. \<not> is_dialog_call x) calls"
  proof (cases p)
    case (Linux c env)
    then show ?thesis by (auto simp: show_def dest: show_linux_Error)
  next
    case (Windows_UNICODE c env)
    then show ?thesis by (auto simp: show_def dest: show_windows_unicode_Error)
  next
    case (Windows_ANSI c env)
    then show ?thesis
      by (simp add: show_def show_windows_ansi getSelection_windows_not_Error)
  qed
  have linux: "show (Linux gc genv) m t s b = Some (Inr Selection_Error, calls) \<longrightarrow>
      calls = [Call_gtk_init_check]"
    by (auto simp: show_def dest: show_linux_Error)
  have displayed: "show p m t s b = Some (Inr sel, calls) \<and> sel \<noteq> Selection_Error \<longrightarrow>
      list_ex is_dialog_call calls"
  proof (cases p)
    case (Linux c env)
    show ?thesis
    proof
      assume "show p m t s b = Some (Inr sel, calls) \<and> sel \<noteq> Selection_Error"
      with Linux have "Call_gtk_dialog_run \<in> set calls"
        by (auto simp: show_def dest: show_linux_displayed)
      moreover have "is_dialog_call Call_gtk_dialog_run" by simp
      ultimately show "list_ex is_dialog_call calls"
        unfolding list_ex_iff by blast
    qed
  next
    case (Windows_UNICODE c env)
    then show ?thesis
      unfolding list_ex_iff by (auto simp: show_def dest: show_windows_displayed)
  next
    case (Windows_ANSI c env)
    then show ?thesis
      unfolding list_ex_iff by (auto simp: show_def dest: show_windows_displayed)
  qed
  from quiet linux displayed show ?thesis by blast
qed

theorem show_error_before_dialog_witness:
  "show (Linux gtk3_h gtk_no_display) ''Saved'' ''Note'' Style_Info Buttons_OK
     = Some (Inr Selection_Error, [Call_gtk_init_check])
   \<and> list_all (\<lambda>x. \<not> is_dialog_call x) [Call_gtk_init_check]
   \<and> show (Windows_UNICODE winuser_h (windows_no_conversion 1)) ''Saved'' ''Note''
         Style_Info Buttons_OK
     = Some (Inr Selection_Error, [Call_MultiByteToWideChar ''Saved'' 0])
   \<and> list_all (\<lambda>x. \<not> is_dialog_call x) [Call_MultiByteToWideChar ''Saved'' 0]
   \<and> (\<exists>calls. show (Windows_UNICODE winuser_h (windows_user_responds 1)) ''Hi'' ''T''
                  Style_Error Buttons_Quit = Some (Inr Selection_Quit, calls)
        \<and> Selection_Quit \<noteq> Selection_Error \<and> list_ex is_dialog_call calls)"
proof -
  have linux: "show (Linux gtk3_h gtk_no_display) ''Saved'' ''Note'' Style_Info Buttons_OK
     = Some (Inr Selection_Error, [Call_gtk_init_check])"
    by (simp add: show_def show_linux_def gtk_no_display_def)
  have windows: "show (Windows_UNICODE winuser_h (windows_no_conversion 1)) ''Saved'' ''Note''
         Style_Info Buttons_OK
     = Some (Inr Selection_Error, [Call_MultiByteToWideChar ''Saved'' 0])"
    by (simp add: show_def show_windows_def utf8ToUtf16_no_conversion)
  have shown: "show (Windows_UNICODE winuser_h (windows_user_responds 1)) ''Hi'' ''T''
      Style_Error Buttons_Quit =
     Some (Inr Selection_Quit,
      [Call_MultiByteToWideChar ''Hi'' 0, Call_MultiByteToWideChar ''Hi'' 3,
       Call_MultiByteToWideChar ''T'' 0, Call_MultiByteToWideChar ''T'' 2,
       Call_MessageBoxW [0x48, 0x69] [0x54] 0x2010])"
    by (simp add: show_def show_windows_unicode_example)
  have ne: "Selection_Quit \<noteq> Selection_Error" by (simp add: Selection_defs)
  from linux
    show_error_before_dialog
      [where p = "Linux gtk3_h gtk_no_display" and gc = gtk3_h and genv = gtk_no_display
         and m = "''Saved''" and t = "''Note''" and s = Style_Info and b = Buttons_OK
         and calls = "[Call_gtk_init_check]"]
  have a: "list_all (\<lambda>x. \<not> is_dialog_call x) [Call_gtk_init_check]" by blast
  from windows
    show_error_before_dialog
      [where p = "Windows_UNICODE winuser_h (windows_no_conversion 1)"
         and m = "''Saved''" and t = "''Note''" and s = Style_Info and b = Buttons_OK
         and calls = "[Call_MultiByteToWideChar ''Saved'' 0]"]
  have b: "list_all (\<lambda>x. \<not> is_dialog_call x) [Call_MultiByteToWideChar ''Saved'' 0]"
    by blast
  from shown ne
    show_error_before_dialog
      [where p = "Windows_UNICODE winuser_h (windows_user_responds 1)"
         and m = "''Hi''" and t = "''T''" and s = Style_Error and b = Buttons_Quit
         and sel = Selection_Quit]
  have c: "\<exists>calls. show (Windows_UNICODE winuser_h (windows_user_responds 1)) ''Hi'' ''T''
                  Style_Error Buttons_Quit = Some (Inr Selection_Quit, calls)
        \<and> Selection_Quit \<noteq> Selection_Error \<and> list_ex is_dialog_call calls"
    by blast
  from linux windows a b c show ?thesis by blast
qed

text \<open>
  C8. On Windows, for a response other than \<^verbatim>\<open>IDOK\<close>, \<^verbatim>\<open>getSelection\<close> gives the same
  selection whatever the buttons requested; for \<^verbatim>\<open>IDOK\<close> the selection does depend on
  them.
\<close>
theorem getSelection_windows_buttons_only_at_IDOK:
  "(r \<noteq> IDOK wc \<longrightarrow> getSelection_windows wc r b1 = getSelection_windows wc r b2)
   \<and> getSelection_windows wc (IDOK wc) Buttons_Quit
       \<noteq> getSelection_windows wc (IDOK wc) Buttons_OK"
  by (simp add: getSelection_windows_def Selection_defs Buttons_defs)

theorem getSelection_windows_buttons_only_at_IDOK_witness:
  "2 \<noteq> IDOK winuser_h
   \<and> getSelection_windows winuser_h 2 Buttons_Quit = getSelection_windows winuser_h 2 Buttons_OK"
proof -
  have ne: "2 \<noteq> IDOK winuser_h" by (simp add: winuser_h_def)
  from ne
    getSelection_windows_buttons_only_at_IDOK
      [where wc = winuser_h and r = 2 and ?b1.0 = Buttons_Quit and ?b2.0 = Buttons_OK]
  show ?thesis by blast
qed

text \<open>
  C9. In the Windows build without \<^verbatim>\<open>UNICODE\<close>, \<^verbatim>\<open>show\<close> returns, never with
  \<^verbatim>\<open>Selection::Error\<close> and never with an exception; its only native call is
  \<^verbatim>\<open>MessageBoxA\<close>, so no text is converted; and when \<^verbatim>\<open>MessageBoxA\<close> fails with \<open>0\<close>,
  which is none of the response codes that \<^verbatim>\<open>getSelection\<close> recognises, the result is
  \<^verbatim>\<open>Selection::None\<close>.
\<close>
theorem show_windows_ansi_never_error:
  "show (Windows_ANSI wc wenv) m t s b \<noteq> None
   \<and> map_option fst (show (Windows_ANSI wc wenv) m t s b) \<noteq> Some (Inr Selection_Error)
   \<and> (\<forall>e. map_option fst (show (Windows_ANSI wc wenv) m t s b) \<noteq> Some (Inl e))
   \<and> map_option snd (show (Windows_ANSI wc wenv) m t s b)
       = Some [Call_MessageBoxA m t (flags_of wc s b)]
   \<and> (0 \<notin> set (windows_labels wc) \<and> MessageBoxA wenv m t (flags_of wc s b) = 0 \<longrightarrow>
        map_option fst (show (Windows_ANSI wc wenv) m t s b) = Some (Inr Selection_None))"
proof -
  let ?r = "MessageBoxA wenv m t (flags_of wc s b)"
  have run: "show (Windows_ANSI wc wenv) m t s b
      = Some (Inr (getSelection_windows wc ?r b), [Call_MessageBoxA m t (flags_of wc s b)])"
    by (simp add: show_def show_windows_ansi)
  have failed: "0 \<notin> set (windows_labels wc) \<and> ?r = 0 \<longrightarrow>
      getSelection_windows wc ?r b = Selection_None"
    by (auto simp: windows_labels_def getSelection_windows_def)
  from run failed getSelection_windows_not_Error [of wc ?r b] show ?thesis by simp
qed

theorem show_windows_ansi_never_error_witness:
  "0 \<notin> set (windows_labels winuser_h)
   \<and> MessageBoxA (windows_no_conversion 0) ''Saved'' ''Note''
        (flags_of winuser_h Style_Info Buttons_OK) = 0
   \<and> map_option fst
        (show (Windows_ANSI winuser_h (windows_no_conversion 0)) ''Saved'' ''Note''
           Style_Info Buttons_OK) = Some (Inr Selection_None)"
proof -
  have labels: "0 \<notin> set (windows_labels winuser_h)"
    by (simp add: windows_labels_def winuser_h_def)
  have failed: "MessageBoxA (windows_no_conversion 0) ''Saved'' ''Note''
        (flags_of winuser_h Style_Info Buttons_OK) = 0"
    by (simp add: windows_no_conversion_def)
  from labels failed
    show_windows_ansi_never_error
      [where wc = winuser_h and wenv = "windows_no_conversion 0" and m = "''Saved''"
         and t = "''Note''" and s = Style_Info and b = Buttons_OK]
  show ?thesis by blast
qed

text \<open>
  C10. On both platforms \<^verbatim>\<open>getSelection\<close> returns one of \<^verbatim>\<open>OK\<close>, \<^verbatim>\<open>Cancel\<close>, \<^verbatim>\<open>Yes\<close>,
  \<^verbatim>\<open>No\<close>, \<^verbatim>\<open>Quit\<close> and \<^verbatim>\<open>None\<close>, never \<^verbatim>\<open>Error\<close>. So when \<^verbatim>\<open>show\<close> returns
  \<^verbatim>\<open>Selection::Error\<close>, a guard was taken: \<^verbatim>\<open>gtk_init_check\<close> failed on Linux, a
  conversion failed in the \<^verbatim>\<open>UNICODE\<close> build for Windows, and the build without
  \<^verbatim>\<open>UNICODE\<close> never returns it.
\<close>
theorem getSelection_never_error:
  "getSelection_gtk gc r
     \<in> {Selection_OK, Selection_Cancel, Selection_Yes, Selection_No, Selection_Quit,
         Selection_None}
   \<and> getSelection_gtk gc r \<noteq> Selection_Error
   \<and> getSelection_windows wc r' b
     \<in> {Selection_OK, Selection_Cancel, Selection_Yes, Selection_No, Selection_Quit,
         Selection_None}
   \<and> getSelection_windows wc r' b \<noteq> Selection_Error
   \<and> (show (Linux gc genv) m t s b = Some (Inr Selection_Error, calls) \<longrightarrow>
        \<not> gtk_init_check genv)
   \<and> (show (Windows_UNICODE wc wenv) m t s b = Some (Inr Selection_Error, calls) \<longrightarrow>
        fst (utf8ToUtf16 wenv m []) = Inr False \<or> fst (utf8ToUtf16 wenv t []) = Inr False)
   \<and> show (Windows_ANSI wc wenv) m t s b \<noteq> Some (Inr Selection_Error, calls)"
proof -
  have linux: "show (Linux gc genv) m t s b = Some (Inr Selection_Error, calls) \<longrightarrow>
        \<not> gtk_init_check genv"
    by (auto simp: show_def dest: show_linux_Error)
  have unicode:
    "show (Windows_UNICODE wc wenv) m t s b = Some (Inr Selection_Error, calls) \<longrightarrow>
        fst (utf8ToUtf16 wenv m []) = Inr False \<or> fst (utf8ToUtf16 wenv t []) = Inr False"
    using show_windows_unicode_Error [of wc wenv m t s b calls] by (simp add: show_def)
  have ansi: "show (Windows_ANSI wc wenv) m t s b \<noteq> Some (Inr Selection_Error, calls)"
    by (simp add: show_def show_windows_ansi getSelection_windows_not_Error)
  from linux unicode ansi getSelection_gtk_range [of gc r] getSelection_gtk_not_Error [of gc r]
    getSelection_windows_range [of wc r' b] getSelection_windows_not_Error [of wc r' b]
  show ?thesis by blast
qed

theorem getSelection_never_error_witness:
  "show (Linux gtk3_h gtk_no_display) ''Saved'' ''Note'' Style_Info Buttons_OK
     = Some (Inr Selection_Error, [Call_gtk_init_check])
   \<and> \<not> gtk_init_check gtk_no_display
   \<and> show (Windows_UNICODE winuser_h (windows_no_conversion 1)) ''Saved'' ''Note''
         Style_Info Buttons_OK
     = Some (Inr Selection_Error, [Call_MultiByteToWideChar ''Saved'' 0])
   \<and> fst (utf8ToUtf16 (windows_no_conversion 1) ''Saved'' []) = Inr False"
proof -
  have conv: "fst (utf8ToUtf16 (windows_no_conversion 1) ''Saved'' []) = Inr False"
    by (simp add: utf8ToUtf16_no_conversion)
  have linux: "show (Linux gtk3_h gtk_no_display) ''Saved'' ''Note'' Style_Info Buttons_OK
     = Some (Inr Selection_Error, [Call_gtk_init_check])"
    by (simp add: show_def show_linux_def gtk_no_display_def)
  have windows: "show (Windows_UNICODE winuser_h (windows_no_conversion 1)) ''Saved'' ''Note''
         Style_Info Buttons_OK
     = Some (Inr Selection_Error, [Call_MultiByteToWideChar ''Saved'' 0])"
    by (simp add: show_def show_windows_def utf8ToUtf16_no_conversion)
  from linux windows conv
    getSelection_never_error
      [where gc = gtk3_h and genv = gtk_no_display and wc = winuser_h
         and wenv = "windows_no_conversion 1" and m = "''Saved''" and t = "''Note''"
         and s = Style_Info and b = Buttons_OK and calls = "[Call_gtk_init_check]"]
    getSelection_never_error
      [where wc = winuser_h and wenv = "windows_no_conversion 1" and m = "''Saved''"
         and t = "''Note''" and s = Style_Info and b = Buttons_OK
         and calls = "[Call_MultiByteToWideChar ''Saved'' 0]"]
  show ?thesis by blast
qed

end
